theory Spec2Isabelle
  imports Main "HOL-Library.AList"
begin

section \<open>The interface-reactions notebook\<close>

text \<open>
  The repository is one Jupyter notebook, \<^verbatim>\<open>2018-01-29-Interface Reactions.ipynb\<close>,
  whose six code cells drive pymatgen and the Materials Project REST interface. The
  notebook is modelled statement by statement as a program over its kernel namespace.
  Everything the notebook does not define itself (pymatgen, pandas, the remote database,
  Python's float arithmetic and the iteration order of a Python set) is a parameter:
  the record \<open>extern\<close>. The theorems hold for every such parameter.

  The cells run once, top to bottom, in a fresh kernel, and a cell that raises stops
  the run. The \<^verbatim>\<open>import\<close> statements and the \<^verbatim>\<open>%matplotlib inline\<close> magic are
  taken to succeed; the names they bind are the fields of \<open>extern\<close>. With the magic in
  force, a figure drawn while a cell runs is shown when the cell ends, also when the
  cell raised after the figure was drawn.
\<close>

subsection \<open>Exceptions, table values and the transcript\<close>

text \<open>
  An exception that reaches the top level of a cell. \<open>NameError\<close> is the read of a name
  that is not bound, \<open>IndexError\<close> and \<open>KeyError\<close> come from the two subscripts the
  notebook writes itself, and \<open>External\<close> is whatever a call into a library raises.
\<close>

datatype error = NameError string | IndexError | KeyError string | External string

text \<open>A value stored in a row of the table: a float or a reference to a library object.\<close>

datatype ('o, 'f) cell = Num 'f | Ref 'o

type_synonym ('o, 'f) row = "(string \<times> ('o, 'f) cell) list"

text \<open>
  The transcript records, in order, every call the notebook makes into a library with
  its arguments and its outcome (\<open>Inl\<close> an exception, \<open>Inr\<close> the returned value), and
  every output the notebook's front end shows. \<open>File_write\<close> is the effect of writing a
  file; no statement of the notebook produces it. The arguments of
  \<open>InterfacialReactivity_call\<close> are the two compositions, the phase diagram, \<open>norm\<close>,
  \<open>include_no_mixing_energy\<close> and \<open>pd_non_grand\<close>. \<open>plot_call\<close> records the object the
  method was called on, the figure the call drew (if it drew one) and its outcome.
\<close>

datatype ('o, 'f) event =
    MPRester_call "string + 'o"
  | Composition_call string "string + 'o"
  | get_entries_in_chemsys_call 'o "string list" "string + 'o"
  | PhaseDiagram_call 'o "string + 'o"
  | Element_call string "string + 'o"
  | get_transition_chempots_call 'o 'o "string + 'f list"
  | GrandPotentialPhaseDiagram_call 'o "(string \<times> 'f) list" "string + 'o"
  | InterfacialReactivity_call 'o 'o 'o bool bool "'o option" "string + 'o"
  | plot_call 'o "'o option" "string + 'o"
  | get_kinks_call 'o "string + (int \<times> 'f \<times> 'f \<times> 'o) list"
  | DataFrame_call "('o, 'f) row list" "string + 'o"
  | Display_figure 'o
  | Display_result 'o
  | Stdout string
  | File_write string string

subsection \<open>The libraries and the Python runtime\<close>

text \<open>
  \<open>'o\<close> is a reference to a library object, \<open>'f\<close> a Python float and \<open>'w\<close> the state
  of everything outside the kernel namespace (the objects of the libraries, the remote
  database). A constructor or method call takes that state, may raise and returns the
  new state; \<open>plot\<close> returns, besides its outcome, the figure it drew before it
  returned or raised (\<open>None\<close>: it drew none). Attribute reads (\<open>.elements\<close>, \<open>.symbol\<close>) and the built-ins \<open>str\<close>,
  \<open>type\<close>, \<open>round\<close> and \<open>+\<close> are functions of their arguments. \<open>set_iteration xs\<close> is
  the order in which Python iterates over \<open>set(xs)\<close>.
\<close>

record ('o, 'f, 'w) extern =
  MPRester :: "'w \<Rightarrow> (string + 'o) \<times> 'w"
  Composition :: "string \<Rightarrow> 'w \<Rightarrow> (string + 'o) \<times> 'w"
  elements_of :: "'o \<Rightarrow> 'o list"
  symbol :: "'o \<Rightarrow> string"
  get_entries_in_chemsys :: "'o \<Rightarrow> string list \<Rightarrow> 'w \<Rightarrow> (string + 'o) \<times> 'w"
  PhaseDiagram :: "'o \<Rightarrow> 'w \<Rightarrow> (string + 'o) \<times> 'w"
  Element :: "string \<Rightarrow> 'w \<Rightarrow> (string + 'o) \<times> 'w"
  get_transition_chempots :: "'o \<Rightarrow> 'o \<Rightarrow> 'w \<Rightarrow> (string + 'f list) \<times> 'w"
  GrandPotentialPhaseDiagram ::
    "'o \<Rightarrow> (string \<times> 'f) list \<Rightarrow> 'w \<Rightarrow> (string + 'o) \<times> 'w"
  InterfacialReactivity ::
    "'o \<Rightarrow> 'o \<Rightarrow> 'o \<Rightarrow> bool \<Rightarrow> bool \<Rightarrow> 'o option \<Rightarrow> 'w \<Rightarrow> (string + 'o) \<times> 'w"
  plot :: "'o \<Rightarrow> 'w \<Rightarrow> ((string + 'o) \<times> 'o option) \<times> 'w"
  get_kinks :: "'o \<Rightarrow> 'w \<Rightarrow> (string + (int \<times> 'f \<times> 'f \<times> 'o) list) \<times> 'w"
  DataFrame :: "('o, 'f) row list \<Rightarrow> 'w \<Rightarrow> (string + 'o) \<times> 'w"
  str_of :: "('o, 'f) cell \<Rightarrow> string"
  type_of :: "('o, 'f) cell \<Rightarrow> string"
  int_plus_float :: "int \<Rightarrow> 'f \<Rightarrow> 'f"
  round_ndigits :: "'f \<Rightarrow> int \<Rightarrow> 'f"
  set_iteration :: "string list \<Rightarrow> string list"

subsection \<open>The kernel\<close>

text \<open>
  The global namespace of the kernel, one field per name the notebook binds (\<open>None\<close>:
  not bound), the figures drawn in the running cell and not yet shown, the state of the
  outside world and the transcript.
\<close>

record ('o, 'f, 'w) kernel =
  mpr :: "'o option"
  reactant1 :: "string option"
  reactant2 :: "string option"
  grand :: "bool option"
  open_el :: "string option"
  relative_mu :: "int option"
  comp1 :: "'o option"
  comp2 :: "'o option"
  elements :: "string list option"
  entries :: "'o option"
  pd :: "'o option"
  mu :: "'f option"
  chempots :: "(string \<times> 'f) list option"
  gpd :: "'o option"
  interface :: "'o option"
  plt :: "'o option"
  critical_rxns :: "('o, 'f) row list option"
  rxn :: "('o, 'f) cell option"
  figures :: "'o list"
  world :: 'w
  transcript :: "('o, 'f) event list"

definition fresh :: "'w \<Rightarrow> ('o, 'f, 'w) kernel" where
  "fresh w = \<lparr> mpr = None, reactant1 = None, reactant2 = None, grand = None,
     open_el = None, relative_mu = None, comp1 = None, comp2 = None, elements = None,
     entries = None, pd = None, mu = None, chempots = None, gpd = None,
     interface = None, plt = None, critical_rxns = None, rxn = None,
     figures = [], world = w, transcript = [] \<rparr>"

subsection \<open>Statements and expressions\<close>

text \<open>
  A computation runs on the kernel and returns a value or raises; the kernel it leaves
  behind is returned in both cases, as a raised exception does not undo the bindings
  and outputs made before it.
\<close>

type_synonym ('a, 'o, 'f, 'w) nb =
  "('o, 'f, 'w) kernel \<Rightarrow> (error + 'a) \<times> ('o, 'f, 'w) kernel"

definition ret :: "'a \<Rightarrow> ('a, 'o, 'f, 'w) nb" where
  "ret v s = (Inr v, s)"

definition raise :: "error \<Rightarrow> ('a, 'o, 'f, 'w) nb" where
  "raise e s = (Inl e, s)"

definition bnd :: "('a, 'o, 'f, 'w) nb \<Rightarrow> ('a \<Rightarrow> ('b, 'o, 'f, 'w) nb) \<Rightarrow> ('b, 'o, 'f, 'w) nb" where
  "bnd m k s = (case m s of (Inl e, s') \<Rightarrow> (Inl e, s') | (Inr v, s') \<Rightarrow> k v s')"

text \<open>Reading a name: \<open>NameError\<close> when it is not bound.\<close>

definition var :: "(('o, 'f, 'w) kernel \<Rightarrow> 'a option) \<Rightarrow> string \<Rightarrow> ('a, 'o, 'f, 'w) nb" where
  "var sel name s = (case sel s of None \<Rightarrow> (Inl (NameError name), s) | Some v \<Rightarrow> (Inr v, s))"

text \<open>Binding a name to a value; \<open>assign\<close> evaluates the right-hand side first.\<close>

definition bind_name ::
  "(('a option \<Rightarrow> 'a option) \<Rightarrow> ('o, 'f, 'w) kernel \<Rightarrow> ('o, 'f, 'w) kernel) \<Rightarrow> 'a \<Rightarrow> (unit, 'o, 'f, 'w) nb" where
  "bind_name upd v s = (Inr (), upd (\<lambda>_. Some v) s)"

definition assign ::
  "(('a option \<Rightarrow> 'a option) \<Rightarrow> ('o, 'f, 'w) kernel \<Rightarrow> ('o, 'f, 'w) kernel) \<Rightarrow> ('a, 'o, 'f, 'w) nb \<Rightarrow> (unit, 'o, 'f, 'w) nb" where
  "assign upd e = bnd e (bind_name upd)"

text \<open>An output of the front end.\<close>

definition emit :: "('o, 'f) event \<Rightarrow> (unit, 'o, 'f, 'w) nb" where
  "emit ev s = (Inr (), s\<lparr>transcript := transcript s @ [ev]\<rparr>)"

text \<open>
  A call into a library: it runs on the outside world, is recorded with its outcome,
  and an exception it raises is raised in the notebook. There is no handler anywhere.
\<close>

definition call ::
  "(string + 'a \<Rightarrow> ('o, 'f) event) \<Rightarrow> ('w \<Rightarrow> (string + 'a) \<times> 'w) \<Rightarrow> ('a, 'o, 'f, 'w) nb" where
  "call ev f s =
     (case f (world s) of (r, w') \<Rightarrow>
        (case r of Inl x \<Rightarrow> Inl (External x) | Inr v \<Rightarrow> Inr v,
         s\<lparr>world := w', transcript := transcript s @ [ev r]\<rparr>))"

text \<open>
  The call of \<open>plot\<close>: as \<open>call\<close>, and the figure it drew is kept to be shown, whether
  the call returned or raised.
\<close>

definition call_drawing ::
  "('o option \<Rightarrow> string + 'a \<Rightarrow> ('o, 'f) event) \<Rightarrow> ('w \<Rightarrow> ((string + 'a) \<times> 'o option) \<times> 'w)
     \<Rightarrow> ('a, 'o, 'f, 'w) nb" where
  "call_drawing ev f s =
     (case f (world s) of ((r, fig), w') \<Rightarrow>
        (case r of Inl x \<Rightarrow> Inl (External x) | Inr v \<Rightarrow> Inr v,
         s\<lparr>figures := figures s @ (case fig of None \<Rightarrow> [] | Some fg \<Rightarrow> [fg]),
           world := w', transcript := transcript s @ [ev fig r]\<rparr>))"

text \<open>
  A cell under \<^verbatim>\<open>%matplotlib inline\<close>: when the cell has ended, normally or with an
  exception, the figures drawn in it are shown and closed.
\<close>

definition inline :: "('a, 'o, 'f, 'w) nb \<Rightarrow> ('a, 'o, 'f, 'w) nb" where
  "inline body s =
     (case body s of (r, s') \<Rightarrow>
        (r, s'\<lparr>figures := [], transcript := transcript s' @ map Display_figure (figures s')\<rparr>))"

text \<open>A sequence of statements stops at the first one that raises.\<close>

fun block :: "(unit, 'o, 'f, 'w) nb list \<Rightarrow> (unit, 'o, 'f, 'w) nb" where
  "block [] = ret ()"
| "block (c # cs) = bnd c (\<lambda>_. block cs)"

text \<open>\<open>xs[i]\<close> for a non-negative literal \<open>i\<close>, and \<open>d[k]\<close> on a dictionary.\<close>

definition subscript :: "'a list \<Rightarrow> nat \<Rightarrow> ('a, 'o, 'f, 'w) nb" where
  "subscript xs i = (if i < length xs then ret (xs ! i) else raise IndexError)"

definition item :: "(string \<times> 'v) list \<Rightarrow> string \<Rightarrow> ('v, 'o, 'f, 'w) nb" where
  "item d k = (case map_of d k of None \<Rightarrow> raise (KeyError k) | Some v \<Rightarrow> ret v)"

text \<open>
  \<open>OrderedDict(pairs)\<close> and the dictionary display \<open>{k: v}\<close>: keys in order of first
  insertion, a repeated key keeps its place and takes the later value.
\<close>

definition OrderedDict :: "(string \<times> 'v) list \<Rightarrow> (string \<times> 'v) list" where
  "OrderedDict ps = foldl (\<lambda>d (k, v). AList.update k v d) [] ps"

subsection \<open>The cells\<close>

text \<open>Cell 1: \<^verbatim>\<open>mpr = MPRester()\<close>.\<close>

definition cell1 :: "('o, 'f, 'w) extern \<Rightarrow> (unit, 'o, 'f, 'w) nb" where
  "cell1 X = assign mpr_update (call MPRester_call (MPRester X))"

text \<open>
  Cell 2: the two reactants, the flag \<open>grand\<close> (the notebook's user edits it; it is the
  parameter \<open>g\<close>) and, under \<^verbatim>\<open>if grand:\<close>, the open element and its relative chemical
  potential.
\<close>

definition cell2 :: "bool \<Rightarrow> (unit, 'o, 'f, 'w) nb" where
  "cell2 g = block [
     assign reactant1_update (ret ''LiCoO2''),
     assign reactant2_update (ret ''Li3PS4''),
     assign grand_update (ret g),
     bnd (var grand ''grand'') (\<lambda>gr.
       if gr then block [
         assign open_el_update (ret ''Co''),
         assign relative_mu_update (ret (- 1))]
       else ret ())]"

text \<open>Cell 3: compositions, element list, entries, phase diagrams and the analysis.\<close>

definition cell3 :: "('o, 'f, 'w) extern \<Rightarrow> (unit, 'o, 'f, 'w) nb" where
  "cell3 X = block [
     assign comp1_update
       (bnd (var reactant1 ''reactant1'') (\<lambda>r. call (Composition_call r) (Composition X r))),
     assign comp2_update
       (bnd (var reactant2 ''reactant2'') (\<lambda>r. call (Composition_call r) (Composition X r))),
     assign elements_update
       (bnd (var comp1 ''comp1'') (\<lambda>c1.
        bnd (var comp2 ''comp2'') (\<lambda>c2.
        ret (map (symbol X) (elements_of X c1 @ elements_of X c2))))),
     bnd (var grand ''grand'') (\<lambda>gr.
       if gr then
         bnd (var elements ''elements'') (\<lambda>es.
         bnd (var open_el ''open_el'') (\<lambda>el.
         bind_name elements_update (es @ [el])))
       else ret ()),
     assign elements_update
       (bnd (var elements ''elements'') (\<lambda>es. ret (set_iteration X es))),
     assign entries_update
       (bnd (var mpr ''mpr'') (\<lambda>m.
        bnd (var elements ''elements'') (\<lambda>es.
        call (get_entries_in_chemsys_call m es) (get_entries_in_chemsys X m es)))),
     assign pd_update
       (bnd (var entries ''entries'') (\<lambda>en. call (PhaseDiagram_call en) (PhaseDiagram X en))),
     bnd (var grand ''grand'') (\<lambda>gr.
       if gr then block [
         assign mu_update
           (bnd (var pd ''pd'') (\<lambda>p.
            bnd (var open_el ''open_el'') (\<lambda>el.
            bnd (call (Element_call el) (Element X el)) (\<lambda>e.
            bnd (call (get_transition_chempots_call p e) (get_transition_chempots X p e)) (\<lambda>ms.
            subscript ms 0))))),
         assign chempots_update
           (bnd (var open_el ''open_el'') (\<lambda>el.
            bnd (var relative_mu ''relative_mu'') (\<lambda>r.
            bnd (var mu ''mu'') (\<lambda>m.
            ret (OrderedDict [(el, int_plus_float X r m)]))))),
         assign gpd_update
           (bnd (var entries ''entries'') (\<lambda>en.
            bnd (var chempots ''chempots'') (\<lambda>cp.
            call (GrandPotentialPhaseDiagram_call en cp) (GrandPotentialPhaseDiagram X en cp)))),
         assign interface_update
           (bnd (var comp1 ''comp1'') (\<lambda>c1.
            bnd (var comp2 ''comp2'') (\<lambda>c2.
            bnd (var gpd ''gpd'') (\<lambda>gp.
            bnd (var pd ''pd'') (\<lambda>p.
            call (InterfacialReactivity_call c1 c2 gp True True (Some p))
                 (InterfacialReactivity X c1 c2 gp True True (Some p)))))))]
       else
         assign interface_update
           (bnd (var comp1 ''comp1'') (\<lambda>c1.
            bnd (var comp2 ''comp2'') (\<lambda>c2.
            bnd (var pd ''pd'') (\<lambda>p.
            call (InterfacialReactivity_call c1 c2 p True False None)
                 (InterfacialReactivity X c1 c2 p True False None))))))]"

text \<open>Cell 4: \<^verbatim>\<open>plt = interface.plot()\<close>.\<close>

definition cell4 :: "('o, 'f, 'w) extern \<Rightarrow> (unit, 'o, 'f, 'w) nb" where
  "cell4 X =
     assign plt_update
       (bnd (var interface ''interface'') (\<lambda>i. call_drawing (plot_call i) (plot X i)))"

text \<open>
  Cell 5: the list comprehension over \<^verbatim>\<open>interface.get_kinks()\<close> and the data frame,
  which is the value of the cell's last expression and is displayed.
\<close>

definition cell5 :: "('o, 'f, 'w) extern \<Rightarrow> (unit, 'o, 'f, 'w) nb" where
  "cell5 X = block [
     assign critical_rxns_update
       (bnd (var interface ''interface'') (\<lambda>i.
        bnd (call (get_kinks_call i) (get_kinks X i)) (\<lambda>ks.
        ret (map (\<lambda>(_, ratio, energy, rxn).
               OrderedDict [
                 (''mixing ratio'', Num (round_ndigits X ratio 4)),
                 (''reaction energy (eV/atom)'', Num (round_ndigits X energy 4)),
                 (''reaction'', Ref rxn)]) ks)))),
     bnd (var critical_rxns ''critical_rxns'') (\<lambda>rs.
     bnd (call (DataFrame_call rs) (DataFrame X rs)) (\<lambda>df.
     emit (Display_result df)))]"

text \<open>Cell 6: the third row's reaction, printed with its type.\<close>

definition cell6 :: "('o, 'f, 'w) extern \<Rightarrow> (unit, 'o, 'f, 'w) nb" where
  "cell6 X = block [
     assign rxn_update
       (bnd (var critical_rxns ''critical_rxns'') (\<lambda>rs.
        bnd (subscript rs 2) (\<lambda>r.
        item r ''reaction''))),
     bnd (var rxn ''rxn'') (\<lambda>r. emit (Stdout (str_of X r))),
     bnd (var rxn ''rxn'') (\<lambda>r. emit (Stdout (type_of X r)))]"

text \<open>
  Running all cells from a fresh kernel, top to bottom, stopping at the first error.
  The magic is the first line of cell 1, so every cell ends with the figures it drew
  being shown.
\<close>

definition notebook :: "('o, 'f, 'w) extern \<Rightarrow> bool \<Rightarrow> (unit, 'o, 'f, 'w) nb" where
  "notebook X g = block [inline (cell1 X), inline (cell2 g), inline (cell3 X),
     inline (cell4 X), inline (cell5 X), inline (cell6 X)]"

definition run :: "('o, 'f, 'w) extern \<Rightarrow> bool \<Rightarrow> 'w \<Rightarrow> (error + unit) \<times> ('o, 'f, 'w) kernel" where
  "run X g w = notebook X g (fresh w)"

text \<open>How the run ended (\<open>Inr ()\<close>: every cell ran to its end) and the kernel it left.\<close>

definition outcome :: "('o, 'f, 'w) extern \<Rightarrow> bool \<Rightarrow> 'w \<Rightarrow> error + unit" where
  "outcome X g w = fst (run X g w)"

definition final :: "('o, 'f, 'w) extern \<Rightarrow> bool \<Rightarrow> 'w \<Rightarrow> ('o, 'f, 'w) kernel" where
  "final X g w = snd (run X g w)"

subsection \<open>Reading the transcript\<close>

text \<open>The exception a recorded call ended with, if it raised.\<close>

definition exn :: "string + 'a \<Rightarrow> string option" where
  "exn r = (case r of Inl x \<Rightarrow> Some x | Inr v \<Rightarrow> None)"

fun raised :: "('o, 'f) event \<Rightarrow> string option" where
  "raised (MPRester_call r) = exn r"
| "raised (Composition_call f r) = exn r"
| "raised (get_entries_in_chemsys_call m es r) = exn r"
| "raised (PhaseDiagram_call en r) = exn r"
| "raised (Element_call el r) = exn r"
| "raised (get_transition_chempots_call p e r) = exn r"
| "raised (GrandPotentialPhaseDiagram_call en cp r) = exn r"
| "raised (InterfacialReactivity_call c1 c2 p n i pn r) = exn r"
| "raised (plot_call i fig r) = exn r"
| "raised (get_kinks_call i r) = exn r"
| "raised (DataFrame_call rs r) = exn r"
| "raised (Display_figure p) = None"
| "raised (Display_result d) = None"
| "raised (Stdout l) = None"
| "raised (File_write path d) = None"

text \<open>
  The calls the notebook makes before \<^verbatim>\<open>interface.plot()\<close>: the database handle, the
  compositions, the entries, the phase diagrams and the analysis.
\<close>

fun precedes_plot :: "('o, 'f) event \<Rightarrow> bool" where
  "precedes_plot (MPRester_call r) = True"
| "precedes_plot (Composition_call f r) = True"
| "precedes_plot (get_entries_in_chemsys_call m es r) = True"
| "precedes_plot (PhaseDiagram_call en r) = True"
| "precedes_plot (Element_call el r) = True"
| "precedes_plot (get_transition_chempots_call p e r) = True"
| "precedes_plot (GrandPotentialPhaseDiagram_call en cp r) = True"
| "precedes_plot (InterfacialReactivity_call c1 c2 p n i pn r) = True"
| "precedes_plot ev = False"

text \<open>The calls of one kind.\<close>

fun is_entry_retrieval :: "('o, 'f) event \<Rightarrow> bool" where
  "is_entry_retrieval (get_entries_in_chemsys_call m es r) = True"
| "is_entry_retrieval ev = False"

fun is_grand_diagram :: "('o, 'f) event \<Rightarrow> bool" where
  "is_grand_diagram (GrandPotentialPhaseDiagram_call en cp r) = True"
| "is_grand_diagram ev = False"

fun is_kinks :: "('o, 'f) event \<Rightarrow> bool" where
  "is_kinks (get_kinks_call i r) = True"
| "is_kinks ev = False"

fun is_frame :: "('o, 'f) event \<Rightarrow> bool" where
  "is_frame (DataFrame_call rs r) = True"
| "is_frame ev = False"

fun is_analysis :: "('o, 'f) event \<Rightarrow> bool" where
  "is_analysis (InterfacialReactivity_call c1 c2 p n i pn r) = True"
| "is_analysis ev = False"

text \<open>What the notebook shows or writes, as opposed to what it asks of a library.\<close>

fun is_output :: "('o, 'f) event \<Rightarrow> bool" where
  "is_output (Display_figure p) = True"
| "is_output (Display_result d) = True"
| "is_output (Stdout l) = True"
| "is_output (File_write path d) = True"
| "is_output ev = False"

definition outputs :: "('o, 'f) event list \<Rightarrow> ('o, 'f) event list" where
  "outputs tr = filter is_output tr"

definition calls :: "('o, 'f) event list \<Rightarrow> ('o, 'f) event list" where
  "calls tr = filter (\<lambda>ev. \<not> is_output ev) tr"

text \<open>The figure a recorded \<open>plot\<close> call drew, and the data frame a \<open>DataFrame\<close> call returned.\<close>

fun drawn_by :: "('o, 'f) event \<Rightarrow> 'o list" where
  "drawn_by (plot_call i (Some fg) r) = [fg]"
| "drawn_by ev = []"

fun frame_of :: "('o, 'f) event \<Rightarrow> 'o list" where
  "frame_of (DataFrame_call rs (Inr df)) = [df]"
| "frame_of ev = []"

text \<open>
  The two ways in which the pipeline stops by itself: a library call raised and the run
  ended with that exception, or \<open>get_transition_chempots\<close> returned the empty list and
  the subscript \<open>[0]\<close> raised \<open>IndexError\<close>.
\<close>

definition raised_in :: "error + unit \<Rightarrow> ('o, 'f) event list \<Rightarrow> bool" where
  "raised_in res tr =
     (case res of Inl (External x) \<Rightarrow> Some x \<in> set (map raised tr) | _ \<Rightarrow> False)"

fun no_chempots :: "('o, 'f) event \<Rightarrow> bool" where
  "no_chempots (get_transition_chempots_call p e (Inr [])) = True"
| "no_chempots ev = False"

definition empty_chempots :: "error + unit \<Rightarrow> ('o, 'f) event list \<Rightarrow> bool" where
  "empty_chempots res tr \<longleftrightarrow> res = Inl IndexError \<and> list_ex no_chempots tr"

subsection \<open>A sample environment\<close>

text \<open>
  A small stand-in for the libraries, used to run the notebook on concrete values.
  Objects are named by strings, the outside world counts the requests sent to the
  database, and a float is an integer number of units of \<open>10\<^sup>-\<^sup>5\<close>, so that
  \<open>84211\<close> stands for \<open>0.84211\<close> and rounds to \<open>84210\<close> at four decimals.
\<close>

definition sample :: "(string, int, nat) extern" where
  "sample = \<lparr>
     MPRester = (\<lambda>w. (Inr ''mpr'', w)),
     Composition = (\<lambda>f w. (Inr f, w)),
     elements_of = (\<lambda>c. if c = ''LiCoO2'' then [''Li'', ''Co'', ''O'']
                        else if c = ''Li3PS4'' then [''Li'', ''P'', ''S''] else []),
     symbol = (\<lambda>e. e),
     get_entries_in_chemsys = (\<lambda>m es w. (Inr ''entries'', Suc w)),
     PhaseDiagram = (\<lambda>en w. (Inr ''pd'', w)),
     Element = (\<lambda>el w. (Inr el, w)),
     get_transition_chempots = (\<lambda>p e w. (Inr [- 700000, - 800000], w)),
     GrandPotentialPhaseDiagram = (\<lambda>en cp w. (Inr ''gpd'', w)),
     InterfacialReactivity = (\<lambda>c1 c2 p n i pn w. (Inr ''interface'', w)),
     plot = (\<lambda>i w. ((Inr ''plt'', Some ''fig''), w)),
     get_kinks = (\<lambda>i w. (Inr [(1, 0, 0, ''rxn0''),
                               (2, 50000, - 46243, ''rxn1''),
                               (3, 84211, - 56757, ''rxn2'')], w)),
     DataFrame = (\<lambda>rs w. (Inr ''df'', w)),
     str_of = (\<lambda>c. case c of Num x \<Rightarrow> ''float'' | Ref r \<Rightarrow> r),
     type_of = (\<lambda>c. case c of Num x \<Rightarrow> ''float'' | Ref r \<Rightarrow> ''Reaction''),
     int_plus_float = (\<lambda>i x. 100000 * i + x),
     round_ndigits = (\<lambda>x n. (2 * x + 10 ^ nat (5 - n)) div (2 * 10 ^ nat (5 - n)) * 10 ^ nat (5 - n)),
     set_iteration = remdups \<rparr>"

text \<open>The same environment with a database handle that cannot be made (no API key).\<close>

definition sample_no_key :: "(string, int, nat) extern" where
  "sample_no_key = sample\<lparr>MPRester := (\<lambda>w. (Inl ''no API key'', w))\<rparr>"

text \<open>The same environment with a \<open>get_kinks\<close> that raises.\<close>

definition sample_kinks_fail :: "(string, int, nat) extern" where
  "sample_kinks_fail = sample\<lparr>get_kinks := (\<lambda>i w. (Inl ''kinks failed'', w))\<rparr>"

text \<open>The same environment with a \<open>plot\<close> that draws its figure and then raises.\<close>

definition sample_plot_fail :: "(string, int, nat) extern" where
  "sample_plot_fail = sample\<lparr>plot := (\<lambda>i w. ((Inl ''plot failed'', Some ''fig''), w))\<rparr>"

subsection \<open>What the library calls preserve\<close>

text \<open>
  \<open>library_keeps X P\<close>: no constructor or method of the libraries takes the outside
  world from a state where \<open>P\<close> holds to one where it does not (for instance, \<open>P\<close> may
  say that an object has a given content: then no call changes that object).
\<close>

definition library_keeps :: "('o, 'f, 'w) extern \<Rightarrow> ('w \<Rightarrow> bool) \<Rightarrow> bool" where
  "library_keeps X P \<longleftrightarrow>
     (\<forall>w. P w \<longrightarrow> P (snd (MPRester X w))) \<and>
     (\<forall>f w. P w \<longrightarrow> P (snd (Composition X f w))) \<and>
     (\<forall>m es w. P w \<longrightarrow> P (snd (get_entries_in_chemsys X m es w))) \<and>
     (\<forall>en w. P w \<longrightarrow> P (snd (PhaseDiagram X en w))) \<and>
     (\<forall>el w. P w \<longrightarrow> P (snd (Element X el w))) \<and>
     (\<forall>p e w. P w \<longrightarrow> P (snd (get_transition_chempots X p e w))) \<and>
     (\<forall>en cp w. P w \<longrightarrow> P (snd (GrandPotentialPhaseDiagram X en cp w))) \<and>
     (\<forall>c1 c2 p n i pn w. P w \<longrightarrow> P (snd (InterfacialReactivity X c1 c2 p n i pn w))) \<and>
     (\<forall>i w. P w \<longrightarrow> P (snd (plot X i w))) \<and>
     (\<forall>i w. P w \<longrightarrow> P (snd (get_kinks X i w))) \<and>
     (\<forall>rs w. P w \<longrightarrow> P (snd (DataFrame X rs w)))"

text \<open>A computation of the notebook keeps \<open>P\<close> when it cannot falsify it either.\<close>

definition keeps :: "('w \<Rightarrow> bool) \<Rightarrow> ('a, 'o, 'f, 'w) nb \<Rightarrow> bool" where
  "keeps P m \<longleftrightarrow> (\<forall>s. P (world s) \<longrightarrow> P (world (snd (m s))))"

section \<open>Symbolic execution\<close>

lemmas nb_defs = run_def notebook_def cell1_def cell2_def cell3_def cell4_def cell5_def cell6_def
  fresh_def ret_def raise_def bnd_def var_def bind_name_def assign_def emit_def call_def
  call_drawing_def inline_def subscript_def item_def OrderedDict_def

text \<open>
  The runs of the sample environments that the concrete checks below use, from any
  number \<open>w\<close> of requests sent before.
\<close>

lemma run_sample_grand:
  "run sample True w =
    (Inr (),
     \<lparr>mpr = Some ''mpr'', reactant1 = Some ''LiCoO2'', reactant2 = Some ''Li3PS4'',
        grand = Some True, open_el = Some ''Co'', relative_mu = Some (- 1),
        comp1 = Some ''LiCoO2'', comp2 = Some ''Li3PS4'',
        elements = Some [''O'', ''Li'', ''P'', ''S'', ''Co''],
        entries = Some ''entries'', pd = Some ''pd'', mu = Some (- 700000),
        chempots = Some [(''Co'', - 800000)], gpd = Some ''gpd'',
        interface = Some ''interface'', plt = Some ''plt'',
        critical_rxns = Some
           [[(''mixing ratio'', Num 0), (''reaction energy (eV/atom)'', Num 0),
             (''reaction'', Ref ''rxn0'')],
            [(''mixing ratio'', Num 50000), (''reaction energy (eV/atom)'', Num (- 46240)),
             (''reaction'', Ref ''rxn1'')],
            [(''mixing ratio'', Num 84210), (''reaction energy (eV/atom)'', Num (- 56760)),
             (''reaction'', Ref ''rxn2'')]],
        rxn = Some (Ref ''rxn2''), figures = [], world = Suc w,
        transcript =
          [MPRester_call (Inr ''mpr''),
           Composition_call ''LiCoO2'' (Inr ''LiCoO2''),
           Composition_call ''Li3PS4'' (Inr ''Li3PS4''),
           get_entries_in_chemsys_call ''mpr'' [''O'', ''Li'', ''P'', ''S'', ''Co'']
            (Inr ''entries''),
           PhaseDiagram_call ''entries'' (Inr ''pd''),
           Element_call ''Co'' (Inr ''Co''),
           get_transition_chempots_call ''pd'' ''Co'' (Inr [- 700000, - 800000]),
           GrandPotentialPhaseDiagram_call ''entries'' [(''Co'', - 800000)] (Inr ''gpd''),
           InterfacialReactivity_call ''LiCoO2'' ''Li3PS4'' ''gpd'' True True (Some ''pd'')
            (Inr ''interface''),
           plot_call ''interface'' (Some ''fig'') (Inr ''plt''), Display_figure ''fig'',
           get_kinks_call ''interface''
            (Inr [(1, 0, 0, ''rxn0''), (2, 50000, - 46243, ''rxn1''),
                  (3, 84211, - 56757, ''rxn2'')]),
           DataFrame_call
            [[(''mixing ratio'', Num 0), (''reaction energy (eV/atom)'', Num 0),
              (''reaction'', Ref ''rxn0'')],
             [(''mixing ratio'', Num 50000), (''reaction energy (eV/atom)'', Num (- 46240)),
              (''reaction'', Ref ''rxn1'')],
             [(''mixing ratio'', Num 84210), (''reaction energy (eV/atom)'', Num (- 56760)),
              (''reaction'', Ref ''rxn2'')]]
            (Inr ''df''),
           Display_result ''df'', Stdout ''rxn2'', Stdout ''Reaction'']\<rparr>)"
  by (simp add: nb_defs sample_def)

lemma run_sample_closed:
  "run sample False w =
    (Inr (),
     \<lparr>mpr = Some ''mpr'', reactant1 = Some ''LiCoO2'', reactant2 = Some ''Li3PS4'',
        grand = Some False, open_el = None, relative_mu = None,
        comp1 = Some ''LiCoO2'', comp2 = Some ''Li3PS4'',
        elements = Some [''Co'', ''O'', ''Li'', ''P'', ''S''],
        entries = Some ''entries'', pd = Some ''pd'', mu = None,
        chempots = None, gpd = None,
        interface = Some ''interface'', plt = Some ''plt'',
        critical_rxns = Some
           [[(''mixing ratio'', Num 0), (''reaction energy (eV/atom)'', Num 0),
             (''reaction'', Ref ''rxn0'')],
            [(''mixing ratio'', Num 50000), (''reaction energy (eV/atom)'', Num (- 46240)),
             (''reaction'', Ref ''rxn1'')],
            [(''mixing ratio'', Num 84210), (''reaction energy (eV/atom)'', Num (- 56760)),
             (''reaction'', Ref ''rxn2'')]],
        rxn = Some (Ref ''rxn2''), figures = [], world = Suc w,
        transcript =
          [MPRester_call (Inr ''mpr''),
           Composition_call ''LiCoO2'' (Inr ''LiCoO2''),
           Composition_call ''Li3PS4'' (Inr ''Li3PS4''),
           get_entries_in_chemsys_call ''mpr'' [''Co'', ''O'', ''Li'', ''P'', ''S'']
            (Inr ''entries''),
           PhaseDiagram_call ''entries'' (Inr ''pd''),
           InterfacialReactivity_call ''LiCoO2'' ''Li3PS4'' ''pd'' True False None
            (Inr ''interface''),
           plot_call ''interface'' (Some ''fig'') (Inr ''plt''), Display_figure ''fig'',
           get_kinks_call ''interface''
            (Inr [(1, 0, 0, ''rxn0''), (2, 50000, - 46243, ''rxn1''),
                  (3, 84211, - 56757, ''rxn2'')]),
           DataFrame_call
            [[(''mixing ratio'', Num 0), (''reaction energy (eV/atom)'', Num 0),
              (''reaction'', Ref ''rxn0'')],
             [(''mixing ratio'', Num 50000), (''reaction energy (eV/atom)'', Num (- 46240)),
              (''reaction'', Ref ''rxn1'')],
             [(''mixing ratio'', Num 84210), (''reaction energy (eV/atom)'', Num (- 56760)),
              (''reaction'', Ref ''rxn2'')]]
            (Inr ''df''),
           Display_result ''df'', Stdout ''rxn2'', Stdout ''Reaction'']\<rparr>)"
  by (simp add: nb_defs sample_def)

lemma run_sample_no_key:
  "run sample_no_key True w =
    (Inl (External ''no API key''),
     \<lparr>mpr = None, reactant1 = None, reactant2 = None, grand = None,
        open_el = None, relative_mu = None, comp1 = None, comp2 = None,
        elements = None, entries = None, pd = None, mu = None,
        chempots = None, gpd = None, interface = None, plt = None,
        critical_rxns = None, rxn = None, figures = [], world = w,
        transcript = [MPRester_call (Inl ''no API key'')]\<rparr>)"
  by (simp add: nb_defs sample_def sample_no_key_def)

lemma run_sample_kinks_fail:
  "run sample_kinks_fail False w =
    (Inl (External ''kinks failed''),
     \<lparr>mpr = Some ''mpr'', reactant1 = Some ''LiCoO2'', reactant2 = Some ''Li3PS4'',
        grand = Some False, open_el = None, relative_mu = None,
        comp1 = Some ''LiCoO2'', comp2 = Some ''Li3PS4'',
        elements = Some [''Co'', ''O'', ''Li'', ''P'', ''S''],
        entries = Some ''entries'', pd = Some ''pd'', mu = None,
        chempots = None, gpd = None,
        interface = Some ''interface'', plt = Some ''plt'',
        critical_rxns = None, rxn = None, figures = [], world = Suc w,
        transcript =
          [MPRester_call (Inr ''mpr''),
           Composition_call ''LiCoO2'' (Inr ''LiCoO2''),
           Composition_call ''Li3PS4'' (Inr ''Li3PS4''),
           get_entries_in_chemsys_call ''mpr'' [''Co'', ''O'', ''Li'', ''P'', ''S'']
            (Inr ''entries''),
           PhaseDiagram_call ''entries'' (Inr ''pd''),
           InterfacialReactivity_call ''LiCoO2'' ''Li3PS4'' ''pd'' True False None
            (Inr ''interface''),
           plot_call ''interface'' (Some ''fig'') (Inr ''plt''), Display_figure ''fig'',
           get_kinks_call ''interface'' (Inl ''kinks failed'')]\<rparr>)"
  by (simp add: nb_defs sample_def sample_kinks_fail_def)

lemma run_sample_plot_fail:
  "run sample_plot_fail False w =
    (Inl (External ''plot failed''),
     \<lparr>mpr = Some ''mpr'', reactant1 = Some ''LiCoO2'', reactant2 = Some ''Li3PS4'',
        grand = Some False, open_el = None, relative_mu = None,
        comp1 = Some ''LiCoO2'', comp2 = Some ''Li3PS4'',
        elements = Some [''Co'', ''O'', ''Li'', ''P'', ''S''],
        entries = Some ''entries'', pd = Some ''pd'', mu = None,
        chempots = None, gpd = None,
        interface = Some ''interface'', plt = None,
        critical_rxns = None, rxn = None, figures = [], world = Suc w,
        transcript =
          [MPRester_call (Inr ''mpr''),
           Composition_call ''LiCoO2'' (Inr ''LiCoO2''),
           Composition_call ''Li3PS4'' (Inr ''Li3PS4''),
           get_entries_in_chemsys_call ''mpr'' [''Co'', ''O'', ''Li'', ''P'', ''S'']
            (Inr ''entries''),
           PhaseDiagram_call ''entries'' (Inr ''pd''),
           InterfacialReactivity_call ''LiCoO2'' ''Li3PS4'' ''pd'' True False None
            (Inr ''interface''),
           plot_call ''interface'' (Some ''fig'') (Inl ''plot failed''),
           Display_figure ''fig'']\<rparr>)"
  by (simp add: nb_defs sample_def sample_plot_fail_def)

lemma sample_fields:
  "symbol sample = (\<lambda>e. e)"
  "elements_of sample ''LiCoO2'' = [''Li'', ''Co'', ''O'']"
  "elements_of sample ''Li3PS4'' = [''Li'', ''P'', ''S'']"
  "set_iteration sample = remdups"
  "int_plus_float sample (- 1) (- 700000) = - 800000"
  "round_ndigits sample 0 4 = 0"
  "round_ndigits sample 50000 4 = 50000"
  "round_ndigits sample 84211 4 = 84210"
  "round_ndigits sample (- 46243) 4 = - 46240"
  "round_ndigits sample (- 56757) 4 = - 56760"
  "str_of sample (Ref ''rxn2'') = ''rxn2''"
  "type_of sample (Ref ''rxn2'') = ''Reaction''"
  by (simp_all add: sample_def)

text \<open>
  Each lemma below executes the notebook once, for both values of the flag, splitting on
  the outcome of every library call.
\<close>

lemma elements_exec:
  assumes iter: "\<And>ys. distinct (set_iteration X ys) \<and> set (set_iteration X ys) = set ys"
  shows "case run X g w of (res, s) \<Rightarrow>
     (\<exists>m c1 c2 es r. mpr s = Some m \<and> comp1 s = Some c1 \<and> comp2 s = Some c2
        \<and> elements s = Some es
        \<and> MPRester_call (Inr m) \<in> set (transcript s)
        \<and> Composition_call ''LiCoO2'' (Inr c1) \<in> set (transcript s)
        \<and> Composition_call ''Li3PS4'' (Inr c2) \<in> set (transcript s)
        \<and> filter is_entry_retrieval (transcript s) = [get_entries_in_chemsys_call m es r]
        \<and> set es = symbol X ` (set (elements_of X c1) \<union> set (elements_of X c2))
                     \<union> (if g then {''Co''} else {})
        \<and> distinct es)
     \<or> (filter is_entry_retrieval (transcript s) = [] \<and> entries s = None
          \<and> raised_in res (transcript s))"
  by (cases g)
     (simp_all add: nb_defs iter image_Un image_iff raised_in_def exn_def
        split: prod.split sum.split option.split)

lemma gpd_exec:
  "case run X g w of (res, s) \<Rightarrow>
     (g \<and> (\<exists>en p e ms r. entries s = Some en \<and> pd s = Some p
        \<and> PhaseDiagram_call en (Inr p) \<in> set (transcript s)
        \<and> Element_call ''Co'' (Inr e) \<in> set (transcript s)
        \<and> get_transition_chempots_call p e (Inr ms) \<in> set (transcript s)
        \<and> ms \<noteq> [] \<and> mu s = Some (hd ms)
        \<and> open_el s = Some ''Co'' \<and> relative_mu s = Some (- 1)
        \<and> chempots s = Some [(''Co'', int_plus_float X (- 1) (hd ms))]
        \<and> filter is_grand_diagram (transcript s) =
            [GrandPotentialPhaseDiagram_call en [(''Co'', int_plus_float X (- 1) (hd ms))] r]))
     \<or> (filter is_grand_diagram (transcript s) = [] \<and> gpd s = None
          \<and> (g \<longrightarrow> raised_in res (transcript s) \<or> empty_chempots res (transcript s)))"
  by (cases g)
     (simp_all add: nb_defs hd_conv_nth image_iff raised_in_def empty_chempots_def exn_def
        split: prod.split sum.split option.split)

lemma analysis_exec:
  "case run X g w of (res, s) \<Rightarrow>
     (\<exists>c1 c2 en d p r. comp1 s = Some c1 \<and> comp2 s = Some c2
        \<and> entries s = Some en \<and> pd s = Some d
        \<and> Composition_call ''LiCoO2'' (Inr c1) \<in> set (transcript s)
        \<and> Composition_call ''Li3PS4'' (Inr c2) \<in> set (transcript s)
        \<and> PhaseDiagram_call en (Inr d) \<in> set (transcript s)
        \<and> (if g then gpd s = Some p
               \<and> (\<exists>cp. GrandPotentialPhaseDiagram_call en cp (Inr p) \<in> set (transcript s))
            else p = d)
        \<and> filter is_analysis (transcript s) =
            [InterfacialReactivity_call c1 c2 p True g (if g then Some d else None) r])
     \<or> (filter is_analysis (transcript s) = [] \<and> interface s = None
          \<and> (raised_in res (transcript s) \<or> empty_chempots res (transcript s)))"
  by (cases g)
     (simp_all add: nb_defs image_iff raised_in_def empty_chempots_def exn_def
        split: prod.split sum.split option.split)

lemma kinks_exec:
  "case run X g w of (res, s) \<Rightarrow>
     (\<exists>i r. interface s = Some i
        \<and> (\<exists>c1 c2 p d. InterfacialReactivity_call c1 c2 p True g d (Inr i) \<in> set (transcript s))
        \<and> filter is_kinks (transcript s) = [get_kinks_call i r]
        \<and> (case r of
              Inl x \<Rightarrow> critical_rxns s = None \<and> filter is_frame (transcript s) = []
            | Inr ks \<Rightarrow>
                critical_rxns s = Some (map (\<lambda>(n, ratio, energy, rxn).
                  [(''mixing ratio'', Num (round_ndigits X ratio 4)),
                   (''reaction energy (eV/atom)'', Num (round_ndigits X energy 4)),
                   (''reaction'', Ref rxn)]) ks)
                \<and> (\<exists>d. filter is_frame (transcript s) =
                      [DataFrame_call (map (\<lambda>(n, ratio, energy, rxn).
                        [(''mixing ratio'', Num (round_ndigits X ratio 4)),
                         (''reaction energy (eV/atom)'', Num (round_ndigits X energy 4)),
                         (''reaction'', Ref rxn)]) ks) d])))
     \<or> (filter is_kinks (transcript s) = [] \<and> critical_rxns s = None
          \<and> filter is_frame (transcript s) = []
          \<and> (raised_in res (transcript s) \<or> empty_chempots res (transcript s)))"
  by (cases g)
     (simp_all add: nb_defs image_iff raised_in_def empty_chempots_def exn_def
        split: prod.split sum.split option.split)

lemma values_exec:
  "case run X g w of (res, s) \<Rightarrow>
     (\<forall>a b p n i d r. InterfacialReactivity_call a b p n i d r \<in> set (transcript s) \<longrightarrow>
        comp1 s = Some a \<and> comp2 s = Some b
        \<and> Composition_call ''LiCoO2'' (Inr a) \<in> set (transcript s)
        \<and> Composition_call ''Li3PS4'' (Inr b) \<in> set (transcript s)
        \<and> (\<exists>en q. entries s = Some en \<and> pd s = Some q
              \<and> PhaseDiagram_call en (Inr q) \<in> set (transcript s)
              \<and> (if g then gpd s = Some p \<and> d = Some q
                    \<and> (\<exists>cp. GrandPotentialPhaseDiagram_call en cp (Inr p) \<in> set (transcript s))
                  else p = q \<and> d = None)))
     \<and> (\<forall>en r. PhaseDiagram_call en r \<in> set (transcript s) \<longrightarrow>
          entries s = Some en
          \<and> (\<exists>m es. get_entries_in_chemsys_call m es (Inr en) \<in> set (transcript s)))
     \<and> (\<forall>en cp r. GrandPotentialPhaseDiagram_call en cp r \<in> set (transcript s) \<longrightarrow>
          entries s = Some en
          \<and> (\<exists>m es. get_entries_in_chemsys_call m es (Inr en) \<in> set (transcript s)))
     \<and> (\<forall>p e r. get_transition_chempots_call p e r \<in> set (transcript s) \<longrightarrow>
          pd s = Some p \<and> (\<exists>en. PhaseDiagram_call en (Inr p) \<in> set (transcript s)))
     \<and> (\<forall>v. rxn s = Some v \<longrightarrow>
          (\<exists>i ks. get_kinks_call i (Inr ks) \<in> set (transcript s) \<and> 2 < length ks
             \<and> v = Ref (snd (snd (snd (ks ! 2))))))"
  by (cases g) (simp_all add: nb_defs image_iff split: prod.split sum.split option.split)


lemma failure_exec:
  "case run X g w of (res, s) \<Rightarrow>
     (\<forall>e\<in>set (transcript s). \<forall>x. raised e = Some x \<longrightarrow>
        res = Inl (External x) \<and> last (calls (transcript s)) = e
        \<and> outputs (transcript s) = map Display_figure (concat (map drawn_by (transcript s)))
        \<and> concat (map frame_of (transcript s)) = [] \<and> rxn s = None
        \<and> (precedes_plot e \<longrightarrow> outputs (transcript s) = [] \<and> plt s = None))"
  by (cases g)
     (simp_all add: nb_defs outputs_def calls_def exn_def
        split: prod.split sum.split option.split)

lemma names_exec:
  "case run X g w of (res, s) \<Rightarrow>
     (\<forall>v. res \<noteq> Inl (NameError v))
     \<and> (grand s = None \<or> grand s = Some g)
     \<and> open_el s = (if grand s = Some True then Some ''Co'' else None)
     \<and> relative_mu s = (if grand s = Some True then Some (- 1) else None)"
  by (cases g) (simp_all add: nb_defs split: prod.split sum.split option.split)

lemma closed_run_ignores_open_element:
  "notebook X False ((fresh w)\<lparr>open_el := a, relative_mu := b\<rparr>) =
     (case run X False w of (res, s) \<Rightarrow> (res, s\<lparr>open_el := a, relative_mu := b\<rparr>))"
  by (simp add: nb_defs split: prod.split sum.split option.split)

lemma first_chempot_exec:
  "case run X g w of (res, s) \<Rightarrow>
     get_transition_chempots_call p e (Inr ms) \<in> set (transcript s) \<longrightarrow>
     (if ms = []
      then res = Inl IndexError \<and> mu s = None
           \<and> last (transcript s) = get_transition_chempots_call p e (Inr ms)
      else mu s = Some (hd ms))"
  by (cases g)
     (simp_all add: nb_defs hd_conv_nth image_iff split: prod.split sum.split option.split)

lemma run_caseD:
  "(case run X g w of (res, s) \<Rightarrow> Q res s) \<Longrightarrow> Q (outcome X g w) (final X g w)"
  by (simp add: outcome_def final_def split: prod.splits)

section \<open>The frame of the notebook\<close>

lemma keeps_ret: "keeps P (ret v)"
  by (simp add: keeps_def ret_def)

lemma keeps_raise: "keeps P (raise e)"
  by (simp add: keeps_def raise_def)

lemma keeps_var: "keeps P (var sel name)"
  by (simp add: keeps_def var_def split: option.split)

lemma keeps_emit: "keeps P (emit ev)"
  by (simp add: keeps_def emit_def)

lemma keeps_bind_name:
  assumes "\<And>f s. world (upd f s) = world s"
  shows "keeps P (bind_name upd v)"
  by (simp add: keeps_def bind_name_def assms)

lemma keeps_call:
  assumes "\<And>w. P w \<Longrightarrow> P (snd (f w))"
  shows "keeps P (call ev f)"
  by (simp add: keeps_def call_def case_prod_unfold assms)

lemma keeps_call_drawing:
  assumes "\<And>w. P w \<Longrightarrow> P (snd (f w))"
  shows "keeps P (call_drawing ev f)"
  by (simp add: keeps_def call_drawing_def case_prod_unfold assms)

lemma keeps_inline:
  assumes "keeps P body"
  shows "keeps P (inline body)"
  using assms by (simp add: keeps_def inline_def case_prod_unfold)

lemma keeps_bnd:
  assumes "keeps P m" and "\<And>v. keeps P (k v)"
  shows "keeps P (bnd m k)"
proof -
  have "P (world (snd (bnd m k s)))" if "P (world s)" for s
  proof (cases "m s")
    case (Pair r s')
    from assms(1) that Pair have s': "P (world s')" by (auto simp: keeps_def dest: spec [of _ s])
    show ?thesis
    proof (cases r)
      case (Inl e)
      with Pair s' show ?thesis by (simp add: bnd_def)
    next
      case (Inr v)
      with Pair s' assms(2) [of v] show ?thesis by (simp add: bnd_def keeps_def)
    qed
  qed
  then show ?thesis by (simp add: keeps_def)
qed

lemma keeps_assign:
  assumes "\<And>f s. world (upd f s) = world s" and "keeps P e"
  shows "keeps P (assign upd e)"
  unfolding assign_def by (intro keeps_bnd keeps_bind_name assms)

lemma keeps_if:
  assumes "keeps P a" and "keeps P b"
  shows "keeps P (if c then a else b)"
  using assms by simp

lemma keeps_block_Nil: "keeps P (block [])"
  by (simp add: keeps_ret)

lemma keeps_block_Cons:
  assumes "keeps P c" and "keeps P (block cs)"
  shows "keeps P (block (c # cs))"
  using assms by (simp add: keeps_bnd)

lemma keeps_subscript: "keeps P (subscript xs i)"
  by (simp add: subscript_def keeps_ret keeps_raise)

lemma keeps_item: "keeps P (item d k)"
  by (simp add: item_def keeps_ret keeps_raise split: option.split)

lemmas keeps_intros = keeps_ret keeps_raise keeps_var keeps_emit keeps_bind_name keeps_call
  keeps_call_drawing keeps_inline keeps_bnd keeps_assign keeps_if keeps_block_Nil
  keeps_block_Cons keeps_subscript keeps_item

lemma keeps_notebook:
  assumes "library_keeps X P"
  shows "keeps P (notebook X g)"
  unfolding notebook_def cell1_def cell2_def cell3_def cell4_def cell5_def cell6_def
  by (intro keeps_intros)
     (use assms in \<open>simp_all add: library_keeps_def\<close>)

lemma world_kept:
  assumes "library_keeps X P" and "P w"
  shows "P (world (final X g w))"
  using keeps_notebook [OF assms(1), of g] assms(2)
  by (simp add: keeps_def final_def run_def fresh_def)

section \<open>The element list, the phase diagrams and the analysis\<close>

text \<open>
  C1. In every run the notebook calls \<open>mpr.get_entries_in_chemsys\<close> exactly once, on the
  handle \<open>mpr\<close> and the list \<open>elements\<close>, unless \<open>MPRester()\<close> or one of the two
  \<open>Composition\<close> calls raised and ended the run. The list holds exactly the symbols of
  the elements of \<open>comp1\<close> and \<open>comp2\<close>, the compositions made from \<open>LiCoO2\<close> and
  \<open>Li3PS4\<close>, together with the open element \<open>Co\<close> when \<open>grand\<close> is true, and no symbol
  twice. Python leaves the order of \<open>list(set(...))\<close> open; the theorem holds for every
  order in which the set is iterated.
\<close>

theorem elements_passed_to_entry_retrieval:
  assumes "\<And>ys. distinct (set_iteration X ys) \<and> set (set_iteration X ys) = set ys"
  shows "(\<exists>m c1 c2 es r. mpr (final X g w) = Some m \<and> comp1 (final X g w) = Some c1
        \<and> comp2 (final X g w) = Some c2 \<and> elements (final X g w) = Some es
        \<and> MPRester_call (Inr m) \<in> set (transcript (final X g w))
        \<and> Composition_call ''LiCoO2'' (Inr c1) \<in> set (transcript (final X g w))
        \<and> Composition_call ''Li3PS4'' (Inr c2) \<in> set (transcript (final X g w))
        \<and> filter is_entry_retrieval (transcript (final X g w)) =
            [get_entries_in_chemsys_call m es r]
        \<and> set es = symbol X ` (set (elements_of X c1) \<union> set (elements_of X c2))
                     \<union> (if g then {''Co''} else {})
        \<and> distinct es)
     \<or> (filter is_entry_retrieval (transcript (final X g w)) = []
          \<and> entries (final X g w) = None
          \<and> raised_in (outcome X g w) (transcript (final X g w)))"
  by (rule run_caseD [OF elements_exec [OF assms]])

theorem elements_passed_to_entry_retrieval_witness:
  "(\<forall>ys. distinct (set_iteration sample ys) \<and> set (set_iteration sample ys) = set ys)
   \<and> filter is_entry_retrieval (transcript (final sample True 0)) =
       [get_entries_in_chemsys_call ''mpr'' [''O'', ''Li'', ''P'', ''S'', ''Co''] (Inr ''entries'')]
   \<and> filter is_entry_retrieval (transcript (final sample False 0)) =
       [get_entries_in_chemsys_call ''mpr'' [''Co'', ''O'', ''Li'', ''P'', ''S''] (Inr ''entries'')]
   \<and> comp1 (final sample True 0) = Some ''LiCoO2''
   \<and> comp2 (final sample True 0) = Some ''Li3PS4''
   \<and> set [''O'', ''Li'', ''P'', ''S'', ''Co''] = {''Li'', ''Co'', ''O'', ''P'', ''S''}
   \<and> distinct [''O'', ''Li'', ''P'', ''S'', ''Co'']
   \<and> filter is_entry_retrieval (transcript (final sample_no_key True 0)) = []
   \<and> raised_in (outcome sample_no_key True 0) (transcript (final sample_no_key True 0))"
proof -
  have iter: "distinct (set_iteration sample ys) \<and> set (set_iteration sample ys) = set ys" for ys
    by (simp add: sample_fields)
  have iter': "distinct (set_iteration sample_no_key ys)
      \<and> set (set_iteration sample_no_key ys) = set ys" for ys
    by (simp add: sample_no_key_def sample_def)
  show ?thesis
    using elements_passed_to_entry_retrieval [of sample True 0, OF iter]
      elements_passed_to_entry_retrieval [of sample False 0, OF iter]
      elements_passed_to_entry_retrieval [of sample_no_key True 0, OF iter'] iter
    by (auto simp add: final_def outcome_def run_sample_grand run_sample_closed
          run_sample_no_key raised_in_def exn_def)
qed

text \<open>
  C2. When \<open>grand\<close> is true the notebook constructs the grand-potential phase diagram
  exactly once, unless a library call before it raised or
  \<open>get_transition_chempots\<close> returned no value; when \<open>grand\<close> is false it never does.
  The diagram is built from the value of \<open>entries\<close> from which the closed-system diagram
  \<open>pd\<close> was built, and its chemical potentials are the one-entry dictionary that maps
  the open element \<open>Co\<close> to \<open>relative_mu + mu\<close>, with \<open>relative_mu = -1\<close> and \<open>mu\<close> the
  first element of what \<open>pd.get_transition_chempots(Element(open_el))\<close> returned.
\<close>

theorem grand_potential_diagram_arguments:
  "(g \<and> (\<exists>en p e ms r. entries (final X g w) = Some en \<and> pd (final X g w) = Some p
        \<and> PhaseDiagram_call en (Inr p) \<in> set (transcript (final X g w))
        \<and> Element_call ''Co'' (Inr e) \<in> set (transcript (final X g w))
        \<and> get_transition_chempots_call p e (Inr ms) \<in> set (transcript (final X g w))
        \<and> ms \<noteq> [] \<and> mu (final X g w) = Some (hd ms)
        \<and> open_el (final X g w) = Some ''Co'' \<and> relative_mu (final X g w) = Some (- 1)
        \<and> chempots (final X g w) = Some [(''Co'', int_plus_float X (- 1) (hd ms))]
        \<and> filter is_grand_diagram (transcript (final X g w)) =
            [GrandPotentialPhaseDiagram_call en [(''Co'', int_plus_float X (- 1) (hd ms))] r]))
     \<or> (filter is_grand_diagram (transcript (final X g w)) = [] \<and> gpd (final X g w) = None
          \<and> (g \<longrightarrow> raised_in (outcome X g w) (transcript (final X g w))
                   \<or> empty_chempots (outcome X g w) (transcript (final X g w))))"
  by (rule run_caseD [OF gpd_exec])

theorem grand_potential_diagram_arguments_witness:
  "filter is_grand_diagram (transcript (final sample True 0)) =
     [GrandPotentialPhaseDiagram_call ''entries'' [(''Co'', - 800000)] (Inr ''gpd'')]
   \<and> entries (final sample True 0) = Some ''entries''
   \<and> PhaseDiagram_call ''entries'' (Inr ''pd'') \<in> set (transcript (final sample True 0))
   \<and> get_transition_chempots_call ''pd'' ''Co'' (Inr [- 700000, - 800000])
      \<in> set (transcript (final sample True 0))
   \<and> mu (final sample True 0) = Some (- 700000)
   \<and> [(''Co'', - 800000)] = [(''Co'', int_plus_float sample (- 1) (- 700000))]
   \<and> filter is_grand_diagram (transcript (final sample False 0)) = []
   \<and> filter is_grand_diagram (transcript (final sample_no_key True 0)) = []
   \<and> raised_in (outcome sample_no_key True 0) (transcript (final sample_no_key True 0))"
  using grand_potential_diagram_arguments [of True sample 0]
    grand_potential_diagram_arguments [of False sample 0]
    grand_potential_diagram_arguments [of True sample_no_key 0]
  by (simp add: final_def outcome_def run_sample_grand run_sample_closed run_sample_no_key
        sample_fields raised_in_def exn_def)

text \<open>
  C3. In every run the analysis \<open>InterfacialReactivity(...)\<close> is invoked exactly once,
  unless a library call before it raised or \<open>get_transition_chempots\<close> returned no
  value. Its arguments are the results of the two \<open>Composition\<close> calls, held in \<open>comp1\<close>
  and \<open>comp2\<close>; the phase diagram, which is \<open>gpd\<close> (the result of
  \<open>GrandPotentialPhaseDiagram\<close>) if \<open>grand\<close> is true and \<open>pd\<close> (the result of
  \<open>PhaseDiagram\<close>) otherwise; \<open>norm = True\<close>; \<open>include_no_mixing_energy\<close> equal to
  \<open>grand\<close>; and \<open>pd_non_grand\<close> equal to \<open>pd\<close> if \<open>grand\<close> is true and \<open>None\<close> otherwise.
\<close>

theorem analysis_invoked_once:
  "(\<exists>c1 c2 en d p r. comp1 (final X g w) = Some c1 \<and> comp2 (final X g w) = Some c2
        \<and> entries (final X g w) = Some en \<and> pd (final X g w) = Some d
        \<and> Composition_call ''LiCoO2'' (Inr c1) \<in> set (transcript (final X g w))
        \<and> Composition_call ''Li3PS4'' (Inr c2) \<in> set (transcript (final X g w))
        \<and> PhaseDiagram_call en (Inr d) \<in> set (transcript (final X g w))
        \<and> (if g then gpd (final X g w) = Some p
               \<and> (\<exists>cp. GrandPotentialPhaseDiagram_call en cp (Inr p)
                          \<in> set (transcript (final X g w)))
            else p = d)
        \<and> filter is_analysis (transcript (final X g w)) =
            [InterfacialReactivity_call c1 c2 p True g (if g then Some d else None) r])
     \<or> (filter is_analysis (transcript (final X g w)) = [] \<and> interface (final X g w) = None
          \<and> (raised_in (outcome X g w) (transcript (final X g w))
               \<or> empty_chempots (outcome X g w) (transcript (final X g w))))"
  by (rule run_caseD [OF analysis_exec])

theorem analysis_invoked_once_witness:
  "filter is_analysis (transcript (final sample True 0)) =
     [InterfacialReactivity_call ''LiCoO2'' ''Li3PS4'' ''gpd'' True True (Some ''pd'')
        (Inr ''interface'')]
   \<and> filter is_analysis (transcript (final sample False 0)) =
     [InterfacialReactivity_call ''LiCoO2'' ''Li3PS4'' ''pd'' True False None
        (Inr ''interface'')]
   \<and> comp1 (final sample True 0) = Some ''LiCoO2''
   \<and> comp2 (final sample True 0) = Some ''Li3PS4''
   \<and> gpd (final sample True 0) = Some ''gpd''
   \<and> pd (final sample True 0) = Some ''pd''
   \<and> pd (final sample False 0) = Some ''pd''
   \<and> filter is_analysis (transcript (final sample_no_key True 0)) = []
   \<and> raised_in (outcome sample_no_key True 0) (transcript (final sample_no_key True 0))"
  using analysis_invoked_once [of sample True 0] analysis_invoked_once [of sample False 0]
    analysis_invoked_once [of sample_no_key True 0]
  by (simp add: final_def outcome_def run_sample_grand run_sample_closed run_sample_no_key
        raised_in_def exn_def)

text \<open>
  C4. In every run \<open>interface.get_kinks()\<close> is called exactly once, on the object that
  \<open>InterfacialReactivity\<close> returned, unless a library call before it raised or
  \<open>get_transition_chempots\<close> returned no value. When it returns the list \<open>ks\<close> of kink
  records, the table \<open>critical_rxns\<close> has one row per kink in the same order, each row
  with the three fields \<open>mixing ratio\<close>, \<open>reaction energy (eV/atom)\<close> and \<open>reaction\<close>, in
  this order: the kink's ratio and energy, each rounded with \<open>round(_, 4)\<close>, and the
  kink's reaction. \<open>DataFrame\<close> is then called exactly once, on this table.
\<close>

theorem kinks_tabulated:
  "(\<exists>i r. interface (final X g w) = Some i
        \<and> (\<exists>c1 c2 p d. InterfacialReactivity_call c1 c2 p True g d (Inr i)
                          \<in> set (transcript (final X g w)))
        \<and> filter is_kinks (transcript (final X g w)) = [get_kinks_call i r]
        \<and> (case r of
              Inl x \<Rightarrow> critical_rxns (final X g w) = None
                \<and> filter is_frame (transcript (final X g w)) = []
            | Inr ks \<Rightarrow>
                critical_rxns (final X g w) = Some (map (\<lambda>(n, ratio, energy, rxn).
                  [(''mixing ratio'', Num (round_ndigits X ratio 4)),
                   (''reaction energy (eV/atom)'', Num (round_ndigits X energy 4)),
                   (''reaction'', Ref rxn)]) ks)
                \<and> (\<exists>d. filter is_frame (transcript (final X g w)) =
                      [DataFrame_call (map (\<lambda>(n, ratio, energy, rxn).
                        [(''mixing ratio'', Num (round_ndigits X ratio 4)),
                         (''reaction energy (eV/atom)'', Num (round_ndigits X energy 4)),
                         (''reaction'', Ref rxn)]) ks) d])))
     \<or> (filter is_kinks (transcript (final X g w)) = [] \<and> critical_rxns (final X g w) = None
          \<and> filter is_frame (transcript (final X g w)) = []
          \<and> (raised_in (outcome X g w) (transcript (final X g w))
               \<or> empty_chempots (outcome X g w) (transcript (final X g w))))"
  by (rule run_caseD [OF kinks_exec])

theorem kinks_tabulated_witness:
  "filter is_kinks (transcript (final sample True 0)) =
     [get_kinks_call ''interface''
        (Inr [(1, 0, 0, ''rxn0''), (2, 50000, - 46243, ''rxn1''), (3, 84211, - 56757, ''rxn2'')])]
   \<and> interface (final sample True 0) = Some ''interface''
   \<and> critical_rxns (final sample True 0) = Some
       [[(''mixing ratio'', Num 0), (''reaction energy (eV/atom)'', Num 0),
         (''reaction'', Ref ''rxn0'')],
        [(''mixing ratio'', Num 50000), (''reaction energy (eV/atom)'', Num (- 46240)),
         (''reaction'', Ref ''rxn1'')],
        [(''mixing ratio'', Num 84210), (''reaction energy (eV/atom)'', Num (- 56760)),
         (''reaction'', Ref ''rxn2'')]]
   \<and> filter is_frame (transcript (final sample True 0)) =
       [DataFrame_call
         [[(''mixing ratio'', Num 0), (''reaction energy (eV/atom)'', Num 0),
           (''reaction'', Ref ''rxn0'')],
          [(''mixing ratio'', Num 50000), (''reaction energy (eV/atom)'', Num (- 46240)),
           (''reaction'', Ref ''rxn1'')],
          [(''mixing ratio'', Num 84210), (''reaction energy (eV/atom)'', Num (- 56760)),
           (''reaction'', Ref ''rxn2'')]] (Inr ''df'')]
   \<and> critical_rxns (final sample False 0) = critical_rxns (final sample True 0)
   \<and> filter is_kinks (transcript (final sample_kinks_fail False 0)) =
       [get_kinks_call ''interface'' (Inl ''kinks failed'')]
   \<and> critical_rxns (final sample_kinks_fail False 0) = None
   \<and> filter is_kinks (transcript (final sample_no_key True 0)) = []
   \<and> raised_in (outcome sample_no_key True 0) (transcript (final sample_no_key True 0))"
  using kinks_tabulated [of sample True 0] kinks_tabulated [of sample False 0]
    kinks_tabulated [of sample_kinks_fail False 0] kinks_tabulated [of sample_no_key True 0]
  by (simp add: final_def outcome_def run_sample_grand run_sample_closed run_sample_no_key
        run_sample_kinks_fail sample_fields raised_in_def exn_def)

section \<open>Frame, outputs and errors\<close>

text \<open>
  C6. The notebook does not change or discard a Composition, the entries, a phase
  diagram, the grand-potential phase diagram or a Reaction once it has obtained it.
  Any property \<open>P\<close> of the world outside the namespace (such as the content of one of
  these objects) that no library call falsifies still holds when the run ends: the
  notebook's own statements do not touch it. Every later use passes the very value that
  was obtained, and the namespace still holds it at the end: the analysis receives the
  results of the two \<open>Composition\<close> calls and of the phase-diagram constructors, both
  phase diagrams are built from the result of \<open>get_entries_in_chemsys\<close>,
  \<open>get_transition_chempots\<close> is called on the result of \<open>PhaseDiagram\<close>, and \<open>rxn\<close> is
  the reaction of the third kink as \<open>get_kinks\<close> returned it.
\<close>

theorem library_values_not_changed:
  assumes "library_keeps X P" and "P w"
  shows "P (world (final X g w)) \<and>
     (\<forall>a b p n i d r.
        InterfacialReactivity_call a b p n i d r \<in> set (transcript (final X g w)) \<longrightarrow>
        comp1 (final X g w) = Some a \<and> comp2 (final X g w) = Some b
        \<and> Composition_call ''LiCoO2'' (Inr a) \<in> set (transcript (final X g w))
        \<and> Composition_call ''Li3PS4'' (Inr b) \<in> set (transcript (final X g w))
        \<and> (\<exists>en q. entries (final X g w) = Some en \<and> pd (final X g w) = Some q
              \<and> PhaseDiagram_call en (Inr q) \<in> set (transcript (final X g w))
              \<and> (if g then gpd (final X g w) = Some p \<and> d = Some q
                    \<and> (\<exists>cp. GrandPotentialPhaseDiagram_call en cp (Inr p)
                               \<in> set (transcript (final X g w)))
                  else p = q \<and> d = None)))
     \<and> (\<forall>en r. PhaseDiagram_call en r \<in> set (transcript (final X g w)) \<longrightarrow>
          entries (final X g w) = Some en
          \<and> (\<exists>m es. get_entries_in_chemsys_call m es (Inr en)
                       \<in> set (transcript (final X g w))))
     \<and> (\<forall>en cp r.
          GrandPotentialPhaseDiagram_call en cp r \<in> set (transcript (final X g w)) \<longrightarrow>
          entries (final X g w) = Some en
          \<and> (\<exists>m es. get_entries_in_chemsys_call m es (Inr en)
                       \<in> set (transcript (final X g w))))
     \<and> (\<forall>p e r. get_transition_chempots_call p e r \<in> set (transcript (final X g w)) \<longrightarrow>
          pd (final X g w) = Some p
          \<and> (\<exists>en. PhaseDiagram_call en (Inr p) \<in> set (transcript (final X g w))))
     \<and> (\<forall>v. rxn (final X g w) = Some v \<longrightarrow>
          (\<exists>i ks. get_kinks_call i (Inr ks) \<in> set (transcript (final X g w))
             \<and> 2 < length ks \<and> v = Ref (snd (snd (snd (ks ! 2))))))"
  by (rule conjI [OF world_kept [OF assms] run_caseD [OF values_exec]])

theorem library_values_not_changed_witness:
  "library_keeps sample (\<lambda>w. 5 \<le> w) \<and> (5 :: nat) \<le> 5
   \<and> 5 \<le> world (final sample True 5)
   \<and> InterfacialReactivity_call ''LiCoO2'' ''Li3PS4'' ''gpd'' True True (Some ''pd'')
        (Inr ''interface'') \<in> set (transcript (final sample True 5))
   \<and> Composition_call ''LiCoO2'' (Inr ''LiCoO2'') \<in> set (transcript (final sample True 5))
   \<and> Composition_call ''Li3PS4'' (Inr ''Li3PS4'') \<in> set (transcript (final sample True 5))
   \<and> comp1 (final sample True 5) = Some ''LiCoO2''
   \<and> comp2 (final sample True 5) = Some ''Li3PS4''
   \<and> entries (final sample True 5) = Some ''entries''
   \<and> pd (final sample True 5) = Some ''pd''
   \<and> gpd (final sample True 5) = Some ''gpd''
   \<and> rxn (final sample True 5) = Some (Ref ''rxn2'')"
proof -
  have keeps: "library_keeps sample (\<lambda>w. 5 \<le> w)"
    by (simp add: library_keeps_def sample_def)
  have start: "(5 :: nat) \<le> 5"
    by simp
  show ?thesis
    using library_values_not_changed [OF keeps start, of True] keeps
    by (simp add: final_def run_sample_grand)
qed




text \<open>
  C8, as the notebook has it. An exception raised by a library call or by the database
  request is not caught: the run ends with that exception and the failed call is the
  last call the notebook makes. Neither the data frame nor the two printed lines are
  shown. The only output there can be is the inline figure, shown exactly when \<open>plot\<close>
  had drawn it; so when a call before \<open>interface.plot()\<close> fails, the notebook shows
  nothing at all and \<open>plt\<close> is not bound.
\<close>

theorem library_errors_propagate:
  assumes "e \<in> set (transcript (final X g w))" and "raised e = Some x"
  shows "outcome X g w = Inl (External x) \<and> last (calls (transcript (final X g w))) = e
     \<and> outputs (transcript (final X g w)) =
          map Display_figure (concat (map drawn_by (transcript (final X g w))))
     \<and> concat (map frame_of (transcript (final X g w))) = [] \<and> rxn (final X g w) = None
     \<and> (precedes_plot e \<longrightarrow>
          outputs (transcript (final X g w)) = [] \<and> plt (final X g w) = None)"
  by (rule run_caseD [OF failure_exec, rule_format, OF assms])

theorem library_errors_propagate_witness:
  "MPRester_call (Inl ''no API key'') \<in> set (transcript (final sample_no_key True 0))
   \<and> raised (MPRester_call (Inl ''no API key'') :: (string, int) event) = Some ''no API key''
   \<and> precedes_plot (MPRester_call (Inl ''no API key'') :: (string, int) event)
   \<and> outcome sample_no_key True 0 = Inl (External ''no API key'')
   \<and> outputs (transcript (final sample_no_key True 0)) = []
   \<and> plt (final sample_no_key True 0) = None
   \<and> plot_call ''interface'' (Some ''fig'') (Inl ''plot failed'')
        \<in> set (transcript (final sample_plot_fail False 0))
   \<and> raised (plot_call ''interface'' (Some ''fig'') (Inl ''plot failed'') :: (string, int) event)
        = Some ''plot failed''
   \<and> outcome sample_plot_fail False 0 = Inl (External ''plot failed'')
   \<and> last (calls (transcript (final sample_plot_fail False 0))) =
        plot_call ''interface'' (Some ''fig'') (Inl ''plot failed'')
   \<and> outputs (transcript (final sample_plot_fail False 0)) = [Display_figure ''fig'']"
  using library_errors_propagate
    [of "MPRester_call (Inl ''no API key'')" sample_no_key True 0 "''no API key''"]
    library_errors_propagate
    [of "plot_call ''interface'' (Some ''fig'') (Inl ''plot failed'')" sample_plot_fail False 0
        "''plot failed''"]
  by (simp add: final_def outcome_def outputs_def calls_def exn_def run_sample_no_key
        run_sample_plot_fail)

text \<open>
  The claim as the specification states it, that no result is produced when any call
  of the pipeline fails, fails on the sample run in which \<open>get_kinks\<close> raises: the run
  ends with that exception and the figure has been shown.
\<close>

theorem no_result_on_failure_counterexample:
  "get_kinks_call ''interface'' (Inl ''kinks failed'')
      \<in> set (transcript (final sample_kinks_fail False 0))
   \<and> raised (get_kinks_call ''interface'' (Inl ''kinks failed'') :: (string, int) event)
        = Some ''kinks failed''
   \<and> outcome sample_kinks_fail False 0 = Inl (External ''kinks failed'')
   \<and> outputs (transcript (final sample_kinks_fail False 0)) = [Display_figure ''fig'']"
  by (simp add: final_def outcome_def outputs_def exn_def run_sample_kinks_fail)

section \<open>Names\<close>

lemma closed_run_ignores_open_element':
  "notebook X False ((fresh w)\<lparr>open_el := a, relative_mu := b\<rparr>) =
     (outcome X False w, (final X False w)\<lparr>open_el := a, relative_mu := b\<rparr>)"
  by (simp add: closed_run_ignores_open_element outcome_def final_def case_prod_unfold)

lemma conj_append4: "A \<and> B \<and> C \<and> D \<Longrightarrow> E \<Longrightarrow> A \<and> B \<and> C \<and> D \<and> E"
  by simp

text \<open>
  C9. No run of the notebook, for either value of \<open>grand\<close>, reads a name that is not
  bound: it never ends in a \<open>NameError\<close>. \<open>open_el\<close> and \<open>relative_mu\<close> are bound
  exactly when \<open>grand\<close> has been bound to true. When \<open>grand\<close> is false they are neither
  read nor assigned: with any values \<open>a\<close> and \<open>b\<close> put in their place beforehand the
  run ends the same way, in the same kernel, with \<open>a\<close> and \<open>b\<close> still there.
\<close>

theorem names_bound_before_read:
  "(\<forall>v. outcome X g w \<noteq> Inl (NameError v))
   \<and> (grand (final X g w) = None \<or> grand (final X g w) = Some g)
   \<and> open_el (final X g w) = (if grand (final X g w) = Some True then Some ''Co'' else None)
   \<and> relative_mu (final X g w) = (if grand (final X g w) = Some True then Some (- 1) else None)
   \<and> notebook X False ((fresh w)\<lparr>open_el := a, relative_mu := b\<rparr>) =
        (outcome X False w, (final X False w)\<lparr>open_el := a, relative_mu := b\<rparr>)"
  by (rule conj_append4 [OF run_caseD [OF names_exec] closed_run_ignores_open_element'])

theorem names_bound_before_read_witness:
  "outcome sample False 0 = Inr ()
   \<and> grand (final sample False 0) = Some False
   \<and> open_el (final sample False 0) = None
   \<and> relative_mu (final sample False 0) = None
   \<and> open_el (final sample True 0) = Some ''Co''
   \<and> relative_mu (final sample True 0) = Some (- 1)"
  using names_bound_before_read [of sample False 0 None None]
    names_bound_before_read [of sample True 0 None None]
  by (simp add: final_def outcome_def run_sample_closed run_sample_grand)

section \<open>The first transition chemical potential\<close>

text \<open>
  The subscript \<open>[0]\<close> on the list that \<open>get_transition_chempots\<close> returned raises
  \<open>IndexError\<close> exactly when the list is empty; then \<open>mu\<close> stays unbound and the run
  stops there. Otherwise \<open>mu\<close> is the head of the list. Whether the list can be empty
  is decided inside pymatgen.
\<close>

lemma first_chempot_subscript:
  assumes "get_transition_chempots_call p e (Inr ms) \<in> set (transcript (final X g w))"
  shows "if ms = []
      then outcome X g w = Inl IndexError \<and> mu (final X g w) = None
           \<and> last (transcript (final X g w)) = get_transition_chempots_call p e (Inr ms)
      else mu (final X g w) = Some (hd ms)"
  by (rule run_caseD [OF first_chempot_exec, rule_format, OF assms])

end
